theory Spec2Isabelle
  imports Main "HOL-Library.Word"
begin

section \<open>The storage wrapper of dlio\_benchmark (src/storage/wrapper\_db.py)\<close>

text \<open>
  The wrapper is a Python class \<open>DbWrapper\<close> that drives a native multi-node storage engine
  through ctypes. The class, its singleton registry and the reader loop of
  src/reader/db\_reader.py are translated from the source. The native engine (the shared
  library bound to \<open>multi_lib\<close>) is not part of the sources; its functions are modelled from
  the specification and marked as such.

  A Python bytes object is a \<open>bytes\<close>: a list of \<open>char\<close>, each one byte. A Python \<open>str\<close> (a
  key, the data of a checkpoint) is a \<open>pystr\<close>: a list of \<open>char\<close>, each one character with a
  code point from 0 to 255, so that a \<open>str\<close> may hold NUL and characters outside ASCII, which
  UTF-8 encodes in two bytes. \<open>len\<close> of a \<open>str\<close> counts characters, not bytes.

  A call into the engine returns a status to the wrapper: a call that takes the process
  down is outside the model.
\<close>

type_synonym bytes = string

type_synonym pystr = string

subsection \<open>Errors\<close>

text \<open>
  The exceptions Python or ctypes raise in the wrapper, and the error taxonomy of the
  specification (section 7), which the node engine reports as the status of a call.
\<close>

datatype error =
    Exception string
  | ValueError string
  | TypeError string
  | InvalidTopology
  | EmptyRing
  | Closed
  | KeyNotFound
  | CorruptDocument
  | NodeIOError

text \<open>
  The one exception the wrapper raises itself, \<open>raise Exception("This class is a singleton!")\<close>,
  is what the specification calls \<open>AlreadyInitialized\<close>.
\<close>

definition AlreadyInitialized :: error where
  "AlreadyInitialized = Exception ''This class is a singleton!''"

subsection \<open>The ctypes structures\<close>

text \<open>
  \<open>SizedBuf.buf\<close> is a \<open>c_char_p\<close>: \<open>None\<close> is the NULL pointer, \<open>Some m\<close> a pointer to memory
  that holds the bytes \<open>m\<close> from the pointer on.
\<close>

record SizedBuf =
  buf :: "bytes option"
  size_buf :: nat

record Doc =
  id_doc :: SizedBuf
  data_doc :: SizedBuf

record ConsistentHashing =
  replicas :: int
  ring_nodes :: "int list"

text \<open>
  \<open>DbHandle.dbs\<close> is the array of node stores (\<open>True\<close>: the store is open, \<open>False\<close>: a NULL or
  closed entry), \<open>ch\<close> the pointer to the ring, \<open>node_num\<close> a C \<open>int\<close>.
\<close>

record DbHandle =
  dbs :: "bool list"
  ch :: "ConsistentHashing option"
  node_num :: int

record DbWrapper =
  handle :: "DbHandle option"
  dataset_key :: "pystr list"

subsection \<open>The world outside the wrapper\<close>

datatype field = IdBuf | IdSize | DataBuf | DataSize

text \<open>
  The effects of the wrapper in the order the source performs them: the calls into the
  engine, the accesses to a document the engine allocated (by address), and the append to
  \<open>dataset_key\<close>.
\<close>

datatype event =
    Save bytes bytes
  | Commit
  | Open bytes
  | Free nat
  | Load nat field
  | Store nat field
  | Append pystr

text \<open>
  \<open>disk\<close> holds the documents the node stores persist, newest first. Routing is a pure
  function of the key and the ring (specification, section 3), so a get finds what the last
  put under the key stored, whichever node holds it; the model keeps the documents of all
  nodes together. \<open>heap\<close> holds the documents the engine allocated for reads, the address
  being the index, each with a flag that is \<open>False\<close> once the document was released.

  Three fields stand for what neither the sources nor the specification determine, and a
  statement that holds for every value of them holds whatever the engine does there:
  \<^item> \<open>beyond\<close>: the bytes that lie in memory behind a buffer, found by a read that runs
    past its end;
  \<^item> \<open>on_miss\<close>: what a get that finds no document leaves behind the out pointer:
    \<open>None\<close>, the pointer is left as the caller set it; \<open>Some d\<close>, it points to a document
    \<open>d\<close> the engine allocated (with NULL buffers, say);
  \<^item> \<open>on_released\<close>: the status a call on node stores that were closed reports, a second
    close included.
\<close>

record world =
  disk :: "(bytes \<times> bytes) list"
  heap :: "(bool \<times> Doc) list"
  beyond :: bytes
  on_miss :: "Doc option"
  on_released :: "error option"
  trace :: "event list"

definition emit :: "event \<Rightarrow> world \<Rightarrow> world" where
  "emit e w = w\<lparr>trace := trace w @ [e]\<rparr>"

subsection \<open>ctypes and Python helpers\<close>

definition NUL :: char where
  "NUL = CHR 0x00"

text \<open>
  \<open>ctypes.c_char_p(b)\<close> of a Python bytes object points to its bytes, which CPython
  terminates with a NUL byte.
\<close>

definition c_char_p :: "bytes \<Rightarrow> bytes option" where
  "c_char_p b = Some (b @ [NUL])"

text \<open>
  Reading a \<open>c_char_p\<close> field gives \<open>None\<close> for NULL and otherwise the bytes up to the first
  NUL byte.
\<close>

definition c_char_p_value :: "bytes option \<Rightarrow> bytes option" where
  "c_char_p_value p = (case p of None \<Rightarrow> None | Some m \<Rightarrow> Some (takeWhile (\<lambda>c. c \<noteq> NUL) m))"

text \<open>
  Passing a Python bytes object to a foreign function passes a pointer to its bytes and
  their terminating NUL byte; what lies behind them is \<open>beyond\<close>.
\<close>

definition bytes_arg :: "bytes option \<Rightarrow> world \<Rightarrow> bytes option" where
  "bytes_arg v w = (case v of None \<Rightarrow> None | Some b \<Rightarrow> Some (b @ [NUL] @ beyond w))"

text \<open>
  \<open>s.encode('utf-8')\<close> of a \<open>str\<close> with code points below 256: one byte for a code point
  below 128, and otherwise the two bytes \<open>110000xx\<close> and \<open>10xxxxxx\<close>.
\<close>

definition utf8 :: "char \<Rightarrow> bytes" where
  "utf8 c =
     (if (of_char c :: nat) < 128 then [c]
      else [char_of (192 + (of_char c :: nat) div 64), char_of (128 + (of_char c :: nat) mod 64)])"

definition encode :: "pystr \<Rightarrow> bytes" where
  "encode s = concat (map utf8 s)"

text \<open>Python's \<open>xs[a:b]\<close> for \<open>0 \<le> a \<le> b\<close>.\<close>

definition slice :: "nat \<Rightarrow> nat \<Rightarrow> 'a list \<Rightarrow> 'a list" where
  "slice a b xs = drop a (take b xs)"

text \<open>Python's \<open>str(n)\<close> for a natural number.\<close>

fun str :: "nat \<Rightarrow> string" where
  "str n = (if n < 10 then [char_of (48 + n)] else str (n div 10) @ [char_of (48 + n mod 10)])"

declare str.simps [simp del]

subsection \<open>The node engine\<close>

text \<open>
  Modelled from the spec: the functions of the native library \<open>multi_lib\<close>, which is not in
  the sources. The ring is built by \<open>create_consistent_hashing\<close> with a number of virtual
  replicas and grows by \<open>add_node\<close>; it holds one position per node and replica
  (section 4.1).
\<close>

definition create_consistent_hashing :: "int \<Rightarrow> ConsistentHashing" where
  "create_consistent_hashing v = \<lparr>replicas = v, ring_nodes = []\<rparr>"

definition add_node :: "ConsistentHashing \<Rightarrow> int \<Rightarrow> ConsistentHashing" where
  "add_node r i = r\<lparr>ring_nodes := ring_nodes r @ [i]\<rparr>"

definition ring_positions :: "DbHandle \<Rightarrow> int" where
  "ring_positions h =
     (case ch h of None \<Rightarrow> 0 | Some r \<Rightarrow> int (length (ring_nodes r)) * replicas r)"

text \<open>
  Modelled from the spec: a document carries length-prefixed buffers (section 4.3); the
  engine reads \<open>size\<close> bytes from \<open>buf\<close>.
\<close>

definition sized :: "SizedBuf \<Rightarrow> bytes" where
  "sized b = (case buf b of None \<Rightarrow> [] | Some m \<Rightarrow> take (size_buf b) m)"

definition is_open :: "DbHandle \<Rightarrow> bool" where
  "is_open h = list_all (\<lambda>b. b) (dbs h)"

text \<open>
  Modelled from the spec: \<open>open\<close> for all nodes happens once, during initialisation
  (section 4.2); \<open>close\<close> closes every node store (section 4.4) and is safe to call once
  (section 6): the status of a close of stores that are closed already is \<open>on_released\<close>.
\<close>

definition couchstore_open_multiple_dbs :: "DbHandle \<Rightarrow> world \<Rightarrow> error option \<times> DbHandle \<times> world" where
  "couchstore_open_multiple_dbs h w = (None, h\<lparr>dbs := map (\<lambda>_. True) (dbs h)\<rparr>, w)"

definition couchstore_close_multiple_dbs :: "DbHandle \<Rightarrow> world \<Rightarrow> error option \<times> DbHandle \<times> world" where
  "couchstore_close_multiple_dbs h w =
     (if is_open h then None else on_released w, h\<lparr>dbs := map (\<lambda>_. False) (dbs h)\<rparr>, w)"

text \<open>
  Modelled from the spec: the node stores serve a put or a get when they are open and the
  ring has a position to route to. Otherwise the call fails: routing on a ring without
  positions with \<open>EmptyRing\<close> (section 4.1), a call on closed stores with the status
  \<open>on_released\<close>, and neither touches the documents.
\<close>

definition serving :: "DbHandle \<Rightarrow> bool" where
  "serving h = (is_open h \<and> 0 < ring_positions h)"

definition engine_status :: "DbHandle \<Rightarrow> world \<Rightarrow> error option" where
  "engine_status h w =
     (if \<not> is_open h then on_released w
      else if ring_positions h \<le> 0 then Some EmptyRing
      else None)"

text \<open>Modelled from the spec: \<open>put\<close> upserts (section 6).\<close>

definition couchstore_save_document_to_nodes :: "DbHandle \<Rightarrow> Doc \<Rightarrow> world \<Rightarrow> error option \<times> world" where
  "couchstore_save_document_to_nodes h d w =
     (let w1 = emit (Save (sized (id_doc d)) (sized (data_doc d))) w
      in if serving h
         then (None, w1\<lparr>disk := (sized (id_doc d), sized (data_doc d)) # disk w1\<rparr>)
         else (engine_status h w1, w1))"

text \<open>Modelled from the spec: \<open>commit\<close> is a durability barrier (section 6).\<close>

definition couchstore_commit_nodes :: "DbHandle \<Rightarrow> world \<Rightarrow> error option \<times> world" where
  "couchstore_commit_nodes h w = (engine_status h w, emit Commit w)"

text \<open>
  Modelled from the spec: \<open>get\<close> fails distinctly for a key that is not found (section 6).
  On success the engine allocates a document and stores its address through the out
  pointer. What a get that finds no document does to the out pointer is \<open>on_miss\<close>.
\<close>

definition couchstore_open_document_from_nodes ::
  "DbHandle \<Rightarrow> bytes option \<Rightarrow> nat \<Rightarrow> nat option \<Rightarrow> world \<Rightarrow> error option \<times> nat option \<times> world" where
  "couchstore_open_document_from_nodes h idbuf idsize pDoc w =
     (let key = sized \<lparr>buf = idbuf, size_buf = idsize\<rparr>;
          w1 = emit (Open key) w
      in case (if serving h then map_of (disk w1) key else None) of
           Some v \<Rightarrow>
             (None, Some (length (heap w1)),
              w1\<lparr>heap := heap w1 @
                 [(True, \<lparr>id_doc = \<lparr>buf = Some (key @ beyond w1), size_buf = length key\<rparr>,
                          data_doc = \<lparr>buf = Some (v @ beyond w1), size_buf = length v\<rparr>\<rparr>)]\<rparr>)
         | None \<Rightarrow>
             (let status = (if serving h then Some KeyNotFound else engine_status h w1)
              in case on_miss w1 of
                   None \<Rightarrow> (status, pDoc, w1)
                 | Some d \<Rightarrow>
                     (status, Some (length (heap w1)), w1\<lparr>heap := heap w1 @ [(True, d)]\<rparr>)))"

text \<open>
  Modelled from the spec: the release of a document the engine allocated (section 3). The
  memory keeps its bytes; the document is no longer live.
\<close>

definition couchstore_free_document :: "nat \<Rightarrow> world \<Rightarrow> world" where
  "couchstore_free_document a w =
     (let w1 = emit (Free a) w
      in w1\<lparr>heap := (heap w1)[a := (False, snd (heap w1 ! a))]\<rparr>)"

subsection \<open>The wrapper: initialisation and close\<close>

definition byref_None :: error where
  "byref_None = TypeError ''byref() argument must be a ctypes instance''"

text \<open>
  \<open>db_init\<close> (lines 59 to 76) with the default \<open>db_name\<close> and \<open>file_path\<close>. Storing
  \<open>num_nodes\<close> into the C \<open>int\<close> field \<open>node_num\<close> keeps its low 32 bits, read as a signed
  value; an array type of negative length raises \<open>ValueError\<close>. No status of the engine is
  inspected.
\<close>

definition db_init :: "DbWrapper \<Rightarrow> int \<Rightarrow> world \<Rightarrow> (error + unit) \<times> DbWrapper \<times> world" where
  "db_init self num_nodes w =
     (let h0 = \<lparr>dbs = [], ch = None, node_num = sint (word_of_int num_nodes :: 32 word)\<rparr>
      in if node_num h0 < 0
         then (Inl (ValueError ''Array length must be >= 0''), self\<lparr>handle := Some h0\<rparr>, w)
         else
           (let h1 = h0\<lparr>dbs := replicate (nat (node_num h0)) False\<rparr>;
                consistent_hash =
                  foldl add_node (create_consistent_hashing 32) (map int [0..<nat (node_num h1)]);
                h2 = h1\<lparr>ch := Some consistent_hash\<rparr>
            in case couchstore_open_multiple_dbs h2 w of
                 (status, h3, w1) \<Rightarrow> (Inr (), self\<lparr>handle := Some h3\<rparr>, w1)))"

text \<open>\<open>db_close\<close> (lines 78 to 79).\<close>

definition db_close :: "DbWrapper \<Rightarrow> world \<Rightarrow> (error + unit) \<times> DbWrapper \<times> world" where
  "db_close self w =
     (case handle self of
        None \<Rightarrow> (Inl byref_None, self, w)
      | Some h \<Rightarrow>
          (case couchstore_close_multiple_dbs h w of
             (status, h1, w1) \<Rightarrow> (Inr (), self\<lparr>handle := Some h1\<rparr>, w1)))"

subsection \<open>The wrapper: checkpoint\<close>

definition bs :: nat where
  "bs = 8192"

text \<open>
  The body of the loop of \<open>db_checkpoint\<close> (lines 86 to 96) builds \<open>docs[i]\<close> from the key
  \<open>f"c{i}"\<close> and the slice \<open>data[i*bs:(i+1)*bs]\<close> and saves it. The key does not use \<open>uri\<close>.
  Key and slice are \<open>str\<close>: the buffers hold their UTF-8 bytes, the sizes are their lengths
  in characters.
\<close>

definition checkpoint_key :: "pystr \<Rightarrow> nat \<Rightarrow> pystr" where
  "checkpoint_key uri i = ''c'' @ str i"

definition checkpoint_value :: "pystr \<Rightarrow> nat \<Rightarrow> pystr" where
  "checkpoint_value data i = slice (i * bs) ((i + 1) * bs) data"

definition checkpoint_doc :: "pystr \<Rightarrow> pystr \<Rightarrow> nat \<Rightarrow> Doc" where
  "checkpoint_doc uri data i =
     (let key = checkpoint_key uri i;
          val = checkpoint_value data i
      in \<lparr>id_doc = \<lparr>buf = c_char_p (encode key), size_buf = length key\<rparr>,
          data_doc = \<lparr>buf = c_char_p (encode val), size_buf = length val\<rparr>\<rparr>)"

fun checkpoint_loop ::
  "DbWrapper \<Rightarrow> pystr \<Rightarrow> pystr \<Rightarrow> nat list \<Rightarrow> world \<Rightarrow> (error + unit) \<times> DbWrapper \<times> world" where
  "checkpoint_loop self uri data [] w = (Inr (), self, w)"
| "checkpoint_loop self uri data (i # rest) w =
     (case handle self of
        None \<Rightarrow> (Inl byref_None, self, w)
      | Some h \<Rightarrow>
          (case couchstore_save_document_to_nodes h (checkpoint_doc uri data i) w of
             (status, w1) \<Rightarrow> checkpoint_loop self uri data rest w1))"

text \<open>
  \<open>db_checkpoint\<close> (lines 81 to 96): \<open>size = len(data)//bs + 1\<close> documents are allocated and
  the loop runs over \<open>range(size-1)\<close>.
\<close>

definition db_checkpoint :: "DbWrapper \<Rightarrow> pystr \<Rightarrow> pystr \<Rightarrow> world \<Rightarrow> (error + unit) \<times> DbWrapper \<times> world" where
  "db_checkpoint self uri data w =
     (let size = length data div bs + 1
      in checkpoint_loop self uri data [0..<size - 1] w)"

subsection \<open>The wrapper: write and read\<close>

text \<open>
  \<open>db_write\<close> (lines 98 to 112). \<open>uri\<close> is the key as \<open>f"{uri}"\<close> formats it, a \<open>str\<close>: the
  buffer of the id holds its UTF-8 bytes, the size is its length in characters. \<open>data\<close> is a
  bytes object. The statuses of the save and of the commit are not inspected.
\<close>

definition db_write :: "DbWrapper \<Rightarrow> pystr \<Rightarrow> bytes \<Rightarrow> world \<Rightarrow> (error + unit) \<times> DbWrapper \<times> world" where
  "db_write self uri data w =
     (let key = uri;
          docs = \<lparr>id_doc = \<lparr>buf = c_char_p (encode key), size_buf = length key\<rparr>,
                  data_doc = \<lparr>buf = c_char_p data, size_buf = length data\<rparr>\<rparr>
      in case handle self of
           None \<Rightarrow> (Inl byref_None, self, w)
         | Some h \<Rightarrow>
             (case couchstore_save_document_to_nodes h docs w of
                (status, w1) \<Rightarrow>
                  (let self1 = self\<lparr>dataset_key := dataset_key self @ [key]\<rparr>;
                       w2 = emit (Append key) w1
                   in case couchstore_commit_nodes h w2 of
                        (status2, w3) \<Rightarrow> (Inr (), self1, w3))))"

text \<open>
  \<open>rq_doc.contents\<close> of a pointer to a document. The non-NULL pointers of \<open>db_read\<close> are the
  addresses the engine returned.
\<close>

definition contents :: "nat \<Rightarrow> world \<Rightarrow> Doc" where
  "contents a w = snd (heap w ! a)"

definition set_id_buf :: "nat \<Rightarrow> bytes option \<Rightarrow> world \<Rightarrow> world" where
  "set_id_buf a v w =
     (let d = contents a w
      in w\<lparr>heap := (heap w)[a := (fst (heap w ! a), d\<lparr>id_doc := (id_doc d)\<lparr>buf := v\<rparr>\<rparr>)]\<rparr>)"

text \<open>
  \<open>db_read\<close> (lines 114 to 129). \<open>rq_doc\<close> starts as a NULL pointer. The call passes
  \<open>rq_id.buf\<close>, the value of a \<open>c_char_p\<close> field: the UTF-8 bytes of the key up to their
  first NUL byte, as a bytes object, with \<open>rq_id.size\<close>, the length of the key in
  characters. The status of the engine is not inspected; \<open>rq_doc.contents\<close> of a NULL
  pointer raises ctypes' \<open>ValueError("NULL pointer access")\<close>. The payload appended to
  \<open>dataset\<close> is the value of the \<open>c_char_p\<close> field \<open>data.buf\<close>. The size is read from the
  document after \<open>couchstore_free_document\<close>; the model returns what the released memory
  still holds.
\<close>

definition db_read ::
  "DbWrapper \<Rightarrow> pystr \<Rightarrow> bytes option list \<Rightarrow> world \<Rightarrow> (error + nat) \<times> bytes option list \<times> world" where
  "db_read self uri dataset w =
     (let rq_doc = None;
          key = uri;
          rq_id = \<lparr>buf = c_char_p (encode key), size_buf = length key\<rparr>
      in case handle self of
           None \<Rightarrow> (Inl byref_None, dataset, w)
         | Some h \<Rightarrow>
             (case couchstore_open_document_from_nodes h
                     (bytes_arg (c_char_p_value (buf rq_id)) w) (size_buf rq_id) rq_doc w of
                (status, rq_doc1, w1) \<Rightarrow>
                  (case rq_doc1 of
                     None \<Rightarrow> (Inl (ValueError ''NULL pointer access''), dataset, w1)
                   | Some a \<Rightarrow>
                       (let w2 = emit (Load a DataBuf) w1;
                            dataset1 = dataset @ [c_char_p_value (buf (data_doc (contents a w2)))];
                            w3 = set_id_buf a None (emit (Store a IdBuf) w2);
                            w4 = couchstore_free_document a w3;
                            w5 = emit (Load a DataSize) w4
                        in (Inr (size_buf (data_doc (contents a w5))), dataset1, w5)))))"

subsection \<open>The singleton\<close>

text \<open>
  A process holds the class attribute \<open>DbWrapper.__instance\<close> and the world. The instance is
  one object: what \<open>__init__\<close> does to \<open>self\<close> after storing it is seen through the class
  attribute.
\<close>

record process =
  DbWrapper_instance :: "DbWrapper option"
  env :: world

text \<open>\<open>DbWrapper.__init__\<close> (lines 44 to 52), entered by the call \<open>DbWrapper()\<close>.\<close>

definition DbWrapper_init :: "process \<Rightarrow> (error + DbWrapper) \<times> process" where
  "DbWrapper_init p =
     (let self = \<lparr>handle = None, dataset_key = []\<rparr>
      in if DbWrapper_instance p \<noteq> None
         then (Inl (Exception ''This class is a singleton!''), p)
         else
           (let p1 = p\<lparr>DbWrapper_instance := Some self\<rparr>
            in case db_init self 4 (env p1) of
                 (r, self1, w1) \<Rightarrow>
                   (case r of Inl e \<Rightarrow> Inl e | Inr u \<Rightarrow> Inr self1,
                    p1\<lparr>DbWrapper_instance := Some self1, env := w1\<rparr>)))"

text \<open>\<open>DbWrapper.get_instance\<close> (lines 54 to 57).\<close>

definition get_instance :: "process \<Rightarrow> (error + DbWrapper option) \<times> process" where
  "get_instance p =
     (if DbWrapper_instance p = None
      then (case DbWrapper_init p of
              (Inl e, p1) \<Rightarrow> (Inl e, p1)
            | (Inr s, p1) \<Rightarrow> (Inr (DbWrapper_instance p1), p1))
      else (Inr (DbWrapper_instance p), p))"

subsection \<open>The reader\<close>

text \<open>
  The loop of \<open>DBReader.read\<close> (src/reader/db\_reader.py, lines 52 to 54) reads every key of
  \<open>dataset_key\<close> and adds up the sizes \<open>db_read\<close> returns.
\<close>

fun reader_loop ::
  "DbWrapper \<Rightarrow> pystr list \<Rightarrow> bytes option list \<Rightarrow> nat \<Rightarrow> world
     \<Rightarrow> (error + nat) \<times> bytes option list \<times> world" where
  "reader_loop db [] dataset db_read_total w = (Inr db_read_total, dataset, w)"
| "reader_loop db (key # keys) dataset db_read_total w =
     (case db_read db key dataset w of
        (Inl e, dataset1, w1) \<Rightarrow> (Inl e, dataset1, w1)
      | (Inr n, dataset1, w1) \<Rightarrow> reader_loop db keys dataset1 (db_read_total + n) w1)"

text \<open>
  \<open>DBReader.read\<close>, lines 52 to 59: after the loop the \<open>None\<close> entries are filtered out of
  the dataset, and a \<open>None\<close> still found in it raises \<open>ValueError\<close>.
\<close>

definition reader_read :: "DbWrapper \<Rightarrow> world \<Rightarrow> (error + nat) \<times> bytes option list \<times> world" where
  "reader_read db w =
     (case reader_loop db (dataset_key db) [] 0 w of
        (Inl e, dataset, w1) \<Rightarrow> (Inl e, dataset, w1)
      | (Inr db_read_total, dataset, w1) \<Rightarrow>
          (let dataset1 = filter (\<lambda>element. element \<noteq> None) dataset
           in if None \<in> set dataset1
              then (Inl (ValueError ''Error reading from database''), dataset1, w1)
              else (Inr db_read_total, dataset1, w1)))"

subsection \<open>Concrete states\<close>

definition world0 :: world where
  "world0 =
     \<lparr>disk = [], heap = [], beyond = [], on_miss = None, on_released = Some Closed, trace = []\<rparr>"

definition process0 :: process where
  "process0 = \<lparr>DbWrapper_instance = None, env = world0\<rparr>"

text \<open>
  A trace uses a document after its release when a \<open>Free\<close> of an address is followed by a
  load or a store at that address.
\<close>

fun touches :: "nat \<Rightarrow> event \<Rightarrow> bool" where
  "touches a (Load b f) = (a = b)"
| "touches a (Store b f) = (a = b)"
| "touches a e = False"

fun use_after_free :: "event list \<Rightarrow> bool" where
  "use_after_free [] = False"
| "use_after_free (Free a # es) = (list_ex (touches a) es \<or> use_after_free es)"
| "use_after_free (e # es) = use_after_free es"

text \<open>
  The client the singleton builds: four open node stores and a ring of four nodes with 32
  virtual replicas each. \<open>closed4\<close> is that client after \<open>db_close\<close>.
\<close>

definition client4 :: DbWrapper where
  "client4 =
     \<lparr>handle = Some \<lparr>dbs = [True, True, True, True],
                      ch = Some \<lparr>replicas = 32, ring_nodes = [0, 1, 2, 3]\<rparr>,
                      node_num = 4\<rparr>,
      dataset_key = []\<rparr>"

definition closed4 :: DbWrapper where
  "closed4 = fst (snd (db_close client4 world0))"

text \<open>The payloads of the save calls of a trace, in order.\<close>

fun saved :: "event list \<Rightarrow> bytes list" where
  "saved [] = []"
| "saved (Save k v # es) = v # saved es"
| "saved (e # es) = saved es"


text \<open>
  The bytes the engine reads for a \<open>str\<close> that \<open>db_write\<close> or \<open>db_checkpoint\<close> pass it:
  as many of its UTF-8 bytes as it has characters. The bytes the engine reads for a key
  that \<open>db_read\<close> passes it: as many bytes as the key has characters, from its UTF-8 bytes
  up to their first NUL byte, that NUL byte and what lies behind it.
\<close>

definition marshal :: "pystr \<Rightarrow> bytes" where
  "marshal s = take (length s) (encode s)"

definition read_key :: "pystr \<Rightarrow> world \<Rightarrow> bytes" where
  "read_key key w =
     take (length key) (takeWhile (\<lambda>c. c \<noteq> NUL) (encode key) @ [NUL] @ beyond w)"

text \<open>A \<open>str\<close> of ASCII characters other than NUL.\<close>

definition plain :: "pystr \<Rightarrow> bool" where
  "plain s = list_all (\<lambda>c. c \<noteq> NUL \<and> (of_char c :: nat) < 128) s"

section \<open>Basic facts\<close>

lemma sized_c_char_p [simp]: "sized \<lparr>buf = c_char_p b, size_buf = length b\<rparr> = b"
  by (simp add: sized_def c_char_p_def)

lemma str_0: "str 0 = ''0''"
  by code_simp

lemma bs_pos: "0 < bs"
  by (simp add: bs_def)

subsection \<open>Marshalling\<close>

lemma length_encode: "length s \<le> length (encode s)"
  by (induction s) (simp_all add: encode_def utf8_def)

lemma sized_encode [simp]:
  "sized \<lparr>buf = c_char_p (encode s), size_buf = length s\<rparr> = marshal s"
  by (simp add: sized_def c_char_p_def marshal_def length_encode)

lemma takeWhile_NUL_append:
  "takeWhile (\<lambda>c. c \<noteq> NUL) (xs @ NUL # ys) = takeWhile (\<lambda>c. c \<noteq> NUL) xs"
  by (induction xs) simp_all

lemma sized_read_arg [simp]:
  "sized \<lparr>buf = bytes_arg (c_char_p_value (c_char_p (encode key))) w, size_buf = length key\<rparr> =
     read_key key w"
  by (simp add: sized_def bytes_arg_def c_char_p_value_def c_char_p_def read_key_def
      takeWhile_NUL_append)

lemma encode_plain: "plain s \<Longrightarrow> encode s = s"
  by (induction s) (simp_all add: plain_def encode_def utf8_def)

lemma marshal_plain: "plain s \<Longrightarrow> marshal s = s"
  by (simp add: marshal_def encode_plain)

lemma read_key_plain: "plain s \<Longrightarrow> read_key s w = s"
proof -
  assume p: "plain s"
  then have t: "takeWhile (\<lambda>c. c \<noteq> NUL) s = s"
    by (simp add: plain_def list_all_iff takeWhile_eq_all_conv)
  show ?thesis by (simp add: read_key_def encode_plain [OF p] t)
qed

text \<open>
  Outside such keys the engine reads other bytes than the key: the two-byte characters
  U+00E9 and U+00E8 both reach it as the one byte C3, and a key with a NUL character is
  read, by a get, up to that NUL and on into what lies behind the buffer.
\<close>

lemma marshal_non_ascii:
  "marshal [CHR 0xE9] = [CHR 0xC3] \<and> marshal [CHR 0xE8] = [CHR 0xC3]"
  by code_simp

lemma read_key_with_NUL:
  "read_key [CHR ''a'', NUL, CHR ''b''] (world0\<lparr>beyond := [CHR ''z'']\<rparr>) = [CHR ''a'', NUL, CHR ''z'']"
  by code_simp

lemma plain_k: "plain ''k''"
  by (simp add: plain_def NUL_def)

lemma plain_c0: "plain ''c0''"
  by (simp add: plain_def NUL_def)

lemma plain_replicate_x: "plain (replicate n CHR ''x'')"
  by (simp add: plain_def NUL_def list_all_iff)

lemma plain_replicate_y: "plain (replicate n CHR ''y'')"
  by (simp add: plain_def NUL_def list_all_iff)

lemma plain_slice: "plain s \<Longrightarrow> plain (slice a b s)"
  by (auto simp add: plain_def list_all_iff slice_def dest!: in_set_dropD in_set_takeD)

subsection \<open>The engine\<close>

lemma handle_client4:
  "handle client4 = Some \<lparr>dbs = [True, True, True, True],
                   ch = Some \<lparr>replicas = 32, ring_nodes = [0, 1, 2, 3]\<rparr>, node_num = 4\<rparr>"
  by (simp add: client4_def)

lemma dataset_key_client4: "dataset_key client4 = []"
  by (simp add: client4_def)

lemma serving_client4:
  "serving \<lparr>dbs = [True, True, True, True],
             ch = Some \<lparr>replicas = 32, ring_nodes = [0, 1, 2, 3]\<rparr>, node_num = 4\<rparr>"
  by (simp add: serving_def is_open_def ring_positions_def)

lemma engine_status_serving: "serving h \<Longrightarrow> engine_status h w = None"
  by (simp add: serving_def engine_status_def)

lemma closed_not_serving:
  "dbs h \<noteq> [] \<Longrightarrow> \<not> serving (h\<lparr>dbs := map (\<lambda>_. False) (dbs h)\<rparr>)"
  by (cases "dbs h") (simp_all add: serving_def is_open_def)

lemma engine_status_closed:
  "dbs h \<noteq> [] \<Longrightarrow> engine_status (h\<lparr>dbs := map (\<lambda>_. False) (dbs h)\<rparr>) w = on_released w"
  by (cases "dbs h") (simp_all add: engine_status_def is_open_def)

lemma save_trace:
  "trace (snd (couchstore_save_document_to_nodes h d w)) =
     trace w @ [Save (sized (id_doc d)) (sized (data_doc d))]"
  by (simp add: couchstore_save_document_to_nodes_def emit_def Let_def)


subsection \<open>Initialisation and close\<close>

lemma foldl_add_node: "foldl add_node r xs = r\<lparr>ring_nodes := ring_nodes r @ xs\<rparr>"
  by (induction xs arbitrary: r) (simp_all add: add_node_def)

lemma sint_c_int: "0 \<le> n \<Longrightarrow> n < 2 ^ 31 \<Longrightarrow> sint (word_of_int n :: 32 word) = n"
  by (simp add: signed_of_int signed_take_bit_int_eq_self)

lemma db_init_ok:
  "0 \<le> n \<Longrightarrow> n < 2 ^ 31 \<Longrightarrow>
   db_init self n w =
     (Inr (),
      self\<lparr>handle := Some \<lparr>dbs = replicate (nat n) True,
                            ch = Some \<lparr>replicas = 32, ring_nodes = map int [0..<nat n]\<rparr>,
                            node_num = n\<rparr>\<rparr>,
      w)"
  by (simp add: db_init_def Let_def sint_c_int couchstore_open_multiple_dbs_def foldl_add_node
      create_consistent_hashing_def)

lemma get_instance_process0:
  "get_instance process0 = (Inr (Some client4), \<lparr>DbWrapper_instance = Some client4, env = world0\<rparr>)"
  by (simp add: get_instance_def process0_def DbWrapper_init_def db_init_def Let_def
      couchstore_open_multiple_dbs_def foldl_add_node create_consistent_hashing_def client4_def
      eval_nat_numeral)

lemma db_close_eq:
  "handle self = Some h \<Longrightarrow>
   db_close self w = (Inr (), self\<lparr>handle := Some (h\<lparr>dbs := map (\<lambda>_. False) (dbs h)\<rparr>)\<rparr>, w)"
  by (simp add: db_close_def couchstore_close_multiple_dbs_def)

lemma handle_closed4:
  "handle closed4 = Some \<lparr>dbs = [False, False, False, False],
                   ch = Some \<lparr>replicas = 32, ring_nodes = [0, 1, 2, 3]\<rparr>, node_num = 4\<rparr>"
  by (simp add: closed4_def db_close_def client4_def couchstore_close_multiple_dbs_def)

subsection \<open>Checkpoint\<close>

lemma checkpoint_doc_sized [simp]:
  "sized (id_doc (checkpoint_doc uri data i)) = marshal (checkpoint_key uri i)"
  "sized (data_doc (checkpoint_doc uri data i)) = marshal (checkpoint_value data i)"
  by (simp_all add: checkpoint_doc_def Let_def)


lemma checkpoint_loop_result:
  "handle self = Some h \<Longrightarrow> fst (checkpoint_loop self uri data ns w) = Inr ()"
  by (induction ns arbitrary: w) (auto split: option.splits prod.splits)

lemma checkpoint_loop_not_typed:
  "fst (checkpoint_loop self uri data ns w) = Inr () \<or>
   fst (checkpoint_loop self uri data ns w) = Inl byref_None"
  by (induction ns arbitrary: w) (auto split: option.splits prod.splits)

lemma checkpoint_loop_trace:
  "handle self = Some h \<Longrightarrow>
   trace (snd (snd (checkpoint_loop self uri data ns w))) =
     trace w @ map (\<lambda>i. Save (marshal (checkpoint_key uri i)) (marshal (checkpoint_value data i))) ns"
proof (induction ns arbitrary: w)
  case Nil
  then show ?case by simp
next
  case (Cons i ns)
  obtain st w1 where s: "couchstore_save_document_to_nodes h (checkpoint_doc uri data i) w = (st, w1)"
    by (cases "couchstore_save_document_to_nodes h (checkpoint_doc uri data i) w")
  have "trace w1 = trace w @ [Save (marshal (checkpoint_key uri i)) (marshal (checkpoint_value data i))]"
    using save_trace [of h "checkpoint_doc uri data i" w] s by simp
  then show ?case using Cons s by simp
qed


lemma db_checkpoint_eq:
  "db_checkpoint self uri data w = checkpoint_loop self uri data [0..<length data div bs] w"
  by (simp add: db_checkpoint_def)

text \<open>A checkpoint saves one chunk for every index below \<open>len(data)//bs\<close> and no other.\<close>

lemma db_checkpoint_trace:
  "handle self = Some h \<Longrightarrow>
   trace (snd (snd (db_checkpoint self uri data w))) =
     trace w @ map (\<lambda>i. Save (marshal (checkpoint_key uri i)) (marshal (checkpoint_value data i)))
                 [0..<length data div bs]"
  by (simp add: db_checkpoint_eq checkpoint_loop_trace)

lemma take_drop_chunk:
  "take a xs @ drop a (take (b + a) xs) = take (b + a) (xs :: 'a list)"
proof -
  have "take a (take (b + a) xs) = take a xs"
    by (simp add: min_def)
  then show ?thesis
    using append_take_drop_id [of a "take (b + a) xs"] by simp
qed

lemma concat_chunks:
  "concat (map (checkpoint_value data) [0..<n]) = take (n * bs) data"
proof (induction n)
  case 0
  then show ?case by simp
next
  case (Suc n)
  have "checkpoint_value data n = drop (n * bs) (take (bs + n * bs) data)"
    by (simp add: checkpoint_value_def slice_def)
  then show ?case using Suc take_drop_chunk [of "n * bs" data bs] by simp
qed

lemma saved_append: "saved (xs @ ys) = saved xs @ saved ys"
  by (induction xs rule: saved.induct) simp_all

lemma saved_map_Save: "saved (map (\<lambda>i. Save (k i) (v i)) ns) = map v ns"
  by (induction ns) simp_all

text \<open>
  For data of ASCII characters other than NUL, the chunks of a checkpoint, joined in index
  order, are the first \<open>(len(data)//bs) * bs\<close> bytes of the data: all of it when the length
  is a multiple of \<open>bs\<close>, and otherwise the data without its last, partial chunk.
\<close>

lemma db_checkpoint_saves_prefix:
  assumes "handle self = Some h" "plain data"
  shows "concat (saved (trace (snd (snd (db_checkpoint self uri data w))))) =
     concat (saved (trace w)) @ take (length data div bs * bs) data"
proof -
  have m: "marshal (checkpoint_value data i) = checkpoint_value data i" for i
    using assms(2) by (simp add: checkpoint_value_def marshal_plain plain_slice)
  show ?thesis
    by (simp add: db_checkpoint_trace [OF assms(1)] m saved_append saved_map_Save concat_chunks)
qed

lemma db_checkpoint_ignores_uri:
  "db_checkpoint self uri1 data w = db_checkpoint self uri2 data w"
proof -
  have "checkpoint_loop self uri1 data ns w = checkpoint_loop self uri2 data ns w" for ns
    by (induction ns arbitrary: w)
       (simp_all add: checkpoint_doc_def checkpoint_key_def split: option.splits prod.splits)
  then show ?thesis by (simp add: db_checkpoint_eq)
qed

lemma checkpoint_one_chunk:
  "length data = bs \<Longrightarrow> plain data \<Longrightarrow> handle self = Some h \<Longrightarrow> serving h \<Longrightarrow>
   db_checkpoint self uri data w =
     (Inr (), self, w\<lparr>disk := (''c0'', data) # disk w, trace := trace w @ [Save ''c0'' data]\<rparr>)"
  using bs_pos
  by (simp add: db_checkpoint_eq couchstore_save_document_to_nodes_def Let_def emit_def
      checkpoint_key_def checkpoint_value_def slice_def str_0 marshal_plain plain_c0)

subsection \<open>Write and read\<close>

lemma db_write_eq:
  "handle self = Some h \<Longrightarrow>
   db_write self key data w =
     (Inr (), self\<lparr>dataset_key := dataset_key self @ [key]\<rparr>,
      snd (couchstore_commit_nodes h
        (emit (Append key)
           (snd (couchstore_save_document_to_nodes h
              \<lparr>id_doc = \<lparr>buf = c_char_p (encode key), size_buf = length key\<rparr>,
                 data_doc = \<lparr>buf = c_char_p data, size_buf = length data\<rparr>\<rparr> w)))))"
  by (simp add: db_write_def Let_def split: prod.splits)

lemma db_write_trace:
  "handle self = Some h \<Longrightarrow>
   trace (snd (snd (db_write self key data w))) =
     trace w @ [Save (marshal key) data, Append key, Commit]"
  by (simp add: db_write_eq couchstore_commit_nodes_def emit_def save_trace)

lemma db_write_disk:
  "handle self = Some h \<Longrightarrow> serving h \<Longrightarrow>
   disk (snd (snd (db_write self key data w))) = (marshal key, data) # disk w \<and>
   beyond (snd (snd (db_write self key data w))) = beyond w \<and>
   handle (fst (snd (db_write self key data w))) = Some h"
  by (simp add: db_write_eq couchstore_commit_nodes_def emit_def
      couchstore_save_document_to_nodes_def Let_def)

text \<open>
  The outcomes of the operations: none of them is an error of the taxonomy of the
  specification.
\<close>

lemma db_read_outcome:
  "(\<exists>n. fst (db_read self key dataset w) = Inr n) \<or>
   fst (db_read self key dataset w) = Inl (ValueError ''NULL pointer access'') \<or>
   fst (db_read self key dataset w) = Inl byref_None"
  by (simp add: db_read_def Let_def split: option.splits prod.splits)

lemma db_write_outcome:
  "fst (db_write self key data w) = Inr () \<or> fst (db_write self key data w) = Inl byref_None"
  by (simp add: db_write_def Let_def split: option.splits prod.splits)

lemma db_close_outcome:
  "fst (db_close self w) = Inr () \<or> fst (db_close self w) = Inl byref_None"
  by (simp add: db_close_def split: option.splits prod.splits)

lemma db_checkpoint_outcome:
  "fst (db_checkpoint self uri data w) = Inr () \<or>
   fst (db_checkpoint self uri data w) = Inl byref_None"
  by (simp add: db_checkpoint_eq checkpoint_loop_not_typed)

lemma sized_read_key:
  "sized \<lparr>buf = Some (takeWhile (\<lambda>c. c \<noteq> NUL) (encode key) @ NUL # beyond w),
          size_buf = length key\<rparr> = read_key key w"
  by (simp add: sized_def read_key_def)

lemmas read_simps =
  c_char_p_value_def c_char_p_def bytes_arg_def takeWhile_NUL_append sized_read_key

lemma db_read_eq:
  "handle self = Some h \<Longrightarrow> serving h \<Longrightarrow> map_of (disk w) (read_key key w) = Some v \<Longrightarrow>
   fst (db_read self key ds w) = Inr (length v) \<and>
   fst (snd (db_read self key ds w)) = ds @ [Some (takeWhile (\<lambda>c. c \<noteq> NUL) (v @ beyond w))]"
  by (simp add: db_read_def Let_def couchstore_open_document_from_nodes_def emit_def
      couchstore_free_document_def set_id_buf_def contents_def read_simps)

text \<open>
  What a read appends after a write of the same key, when both calls give the engine the
  same bytes for the key: the payload up to its first NUL byte, or, for a payload without
  one, the payload and whatever follows the buffer up to a NUL byte.
\<close>

lemma write_then_read:
  assumes "handle self = Some h" "serving h" "read_key key w = marshal key"
  shows "fst (snd (db_read (fst (snd (db_write self key data w))) key ds
                  (snd (snd (db_write self key data w))))) =
         ds @ [Some (takeWhile (\<lambda>c. c \<noteq> NUL) (data @ beyond w))]"
proof -
  let ?self1 = "fst (snd (db_write self key data w))"
  let ?w1 = "snd (snd (db_write self key data w))"
  have b: "beyond ?w1 = beyond w" and h: "handle ?self1 = Some h"
    and d0: "disk ?w1 = (marshal key, data) # disk w"
    using db_write_disk [OF assms(1,2), of key data w] by simp_all
  have k: "read_key key ?w1 = marshal key"
    using assms(3) b by (simp add: read_key_def)
  have d: "map_of (disk ?w1) (read_key key ?w1) = Some data"
    by (simp add: d0 k)
  show ?thesis using db_read_eq [OF h assms(2) d, of ds] b by simp
qed

lemma takeWhile_NUL_shorter:
  "NUL \<in> set data \<Longrightarrow> takeWhile (\<lambda>c. c \<noteq> NUL) (data @ b) \<noteq> data"
  by (metis (mono_tags, lifting) set_takeWhileD takeWhile_append1)

lemma use_after_free_append:
  "use_after_free (es @ [Free a, Load a f])"
  by (induction es rule: use_after_free.induct) simp_all

lemma db_read_found_trace:
  "fst (db_read self key dataset w) = Inr n \<Longrightarrow>
   trace (snd (snd (db_read self key dataset w))) =
     trace w @ [Open (read_key key w), Load (length (heap w)) DataBuf, Store (length (heap w)) IdBuf,
                Free (length (heap w)), Load (length (heap w)) DataSize]"
  by (auto simp add: db_read_def Let_def couchstore_open_document_from_nodes_def emit_def
      couchstore_free_document_def set_id_buf_def read_simps
      split: option.splits prod.splits if_splits)

text \<open>Every read that returns has read the document after releasing it.\<close>

lemma db_read_use_after_free:
  assumes "fst (db_read self key dataset w) = Inr n"
  shows "use_after_free (trace (snd (snd (db_read self key dataset w))))"
proof -
  have "trace (snd (snd (db_read self key dataset w))) =
      (trace w @ [Open (read_key key w), Load (length (heap w)) DataBuf, Store (length (heap w)) IdBuf]) @
      [Free (length (heap w)), Load (length (heap w)) DataSize]"
    using db_read_found_trace [OF assms] by simp
  then show ?thesis by (simp only: use_after_free_append)
qed

subsection \<open>The reader\<close>






text \<open>
  What a read does when the engine finds no document depends on what the engine leaves
  behind the out pointer: with a pointer left NULL it raises, with a document of NULL
  buffers it returns 0 and appends \<open>None\<close>.
\<close>

lemma db_read_miss_NULL:
  "handle self = Some h \<Longrightarrow> serving h \<Longrightarrow> map_of (disk w) (read_key key w) = None \<Longrightarrow>
   on_miss w = None \<Longrightarrow>
   db_read self key dataset w =
     (Inl (ValueError ''NULL pointer access''), dataset, emit (Open (read_key key w)) w)"
  by (simp add: db_read_def Let_def couchstore_open_document_from_nodes_def emit_def read_simps)

lemma db_read_miss_document:
  "handle self = Some h \<Longrightarrow> serving h \<Longrightarrow> map_of (disk w) (read_key key w) = None \<Longrightarrow>
   on_miss w = Some \<lparr>id_doc = \<lparr>buf = None, size_buf = 0\<rparr>, data_doc = \<lparr>buf = None, size_buf = 0\<rparr>\<rparr> \<Longrightarrow>
   fst (db_read self key dataset w) = Inr 0 \<and>
   fst (snd (db_read self key dataset w)) = dataset @ [None]"
  by (simp add: db_read_def Let_def couchstore_open_document_from_nodes_def emit_def
      couchstore_free_document_def set_id_buf_def contents_def read_simps)

text \<open>
  The reader filters the \<open>None\<close> entries out before it looks for one: its own error is
  never raised.
\<close>

lemma reader_read_check_dead:
  "fst (reader_read db w) \<noteq> Inl (ValueError ''Error reading from database'')"
proof -
  have "fst (reader_loop db keys dataset t w) \<noteq> Inl (ValueError ''Error reading from database'')"
    for keys dataset t w
  proof (induction keys arbitrary: dataset t w)
    case Nil
    then show ?case by simp
  next
    case (Cons key keys)
    obtain r ds1 w1 where d: "db_read db key dataset w = (r, ds1, w1)"
      by (cases "db_read db key dataset w")
    show ?case
    proof (cases r)
      case (Inl e)
      then show ?thesis
        using d db_read_outcome [of db key dataset w] by (auto simp add: byref_None_def)
    next
      case (Inr n)
      then show ?thesis using d Cons [of ds1 "t + n" w1] by simp
    qed
  qed
  from this [of "dataset_key db" "[]" 0 w] show ?thesis
    by (auto simp add: reader_read_def Let_def split: prod.splits sum.splits)
qed

section \<open>The claims\<close>

subsection \<open>Checkpoint\<close>

text \<open>
  C1. The claim: a checkpoint emits \<open>ceil(len(data)/bs)\<close> chunks, and the chunks joined in
  index order are the data, also when the data is shorter than a chunk. The code loops over
  \<open>range(size-1)\<close> with \<open>size = len(data)//bs + 1\<close>: a checkpoint of the one byte \<open>x\<close> by the
  client of the singleton saves no chunk and leaves the world as it was, so nothing of the
  data can be read back.
\<close>

theorem db_checkpoint_drops_short_data:
  "db_checkpoint client4 ''u'' ''x'' world0 = (Inr (), client4, world0)"
  by (simp add: db_checkpoint_eq bs_def)

text \<open>
  C8. The claim: a chunk is stored under a key derived from the uri and the chunk index, so
  that checkpoints under two uris use disjoint keys. The code builds the key \<open>f"c{i}"\<close> from
  the index alone: a checkpoint of one chunk under the uri \<open>a\<close> and a later one under the
  uri \<open>b\<close> both save under the key \<open>c0\<close>, and the second document is the one a get of \<open>c0\<close>
  finds.
\<close>

theorem db_checkpoint_keys_ignore_uri:
  "db_checkpoint client4 ''a'' (replicate bs CHR ''x'') world0 =
     (Inr (), client4,
      world0\<lparr>disk := [(''c0'', replicate bs CHR ''x'')], trace := [Save ''c0'' (replicate bs CHR ''x'')]\<rparr>) \<and>
   db_checkpoint client4 ''b'' (replicate bs CHR ''y'')
      (world0\<lparr>disk := [(''c0'', replicate bs CHR ''x'')], trace := [Save ''c0'' (replicate bs CHR ''x'')]\<rparr>) =
     (Inr (), client4,
      world0\<lparr>disk := [(''c0'', replicate bs CHR ''y''), (''c0'', replicate bs CHR ''x'')],
             trace := [Save ''c0'' (replicate bs CHR ''x''), Save ''c0'' (replicate bs CHR ''y'')]\<rparr>)"
  by (simp add: checkpoint_one_chunk [OF _ _ handle_client4 serving_client4]
      plain_replicate_x plain_replicate_y world0_def)




subsection \<open>The singleton\<close>

text \<open>
  C4. One instance per process: when the class attribute is empty, \<open>get_instance\<close> builds
  the client with four nodes and stores it; when it holds an instance, \<open>get_instance\<close>
  returns that instance and changes nothing, and the constructor raises the exception the
  specification calls \<open>AlreadyInitialized\<close> and changes nothing.
\<close>

theorem singleton_instance:
  "get_instance (p\<lparr>DbWrapper_instance := None\<rparr>) =
     (Inr (Some client4), p\<lparr>DbWrapper_instance := Some client4\<rparr>) \<and>
   map_option node_num (handle client4) = Some 4 \<and>
   get_instance (p\<lparr>DbWrapper_instance := Some db\<rparr>) =
     (Inr (Some db), p\<lparr>DbWrapper_instance := Some db\<rparr>) \<and>
   DbWrapper_init (p\<lparr>DbWrapper_instance := Some db\<rparr>) =
     (Inl AlreadyInitialized, p\<lparr>DbWrapper_instance := Some db\<rparr>)"
  by (simp add: get_instance_def DbWrapper_init_def Let_def db_init_ok AlreadyInitialized_def
      client4_def eval_nat_numeral)

theorem singleton_instance_witness:
  "get_instance process0 = (Inr (Some client4), process0\<lparr>DbWrapper_instance := Some client4\<rparr>) \<and>
   map_option node_num (handle client4) = Some 4 \<and>
   get_instance (process0\<lparr>DbWrapper_instance := Some client4\<rparr>) =
     (Inr (Some client4), process0\<lparr>DbWrapper_instance := Some client4\<rparr>) \<and>
   DbWrapper_init (process0\<lparr>DbWrapper_instance := Some client4\<rparr>) =
     (Inl AlreadyInitialized, process0\<lparr>DbWrapper_instance := Some client4\<rparr>)"
  using singleton_instance [of process0 client4] by (simp add: process0_def)

subsection \<open>Write and read\<close>

text \<open>
  C2. The claim: a write followed by a read of the same key gives back the payload byte for
  byte, also for a payload that contains NUL bytes. The code appends the value of the
  \<open>c_char_p\<close> field \<open>data.buf\<close>, which ends at the first NUL byte: after a write of the three
  bytes \<open>a\<close>, NUL, \<open>b\<close> under the key \<open>k\<close>, the read of \<open>k\<close> appends the one byte \<open>a\<close>,
  whatever lies behind the buffer.
\<close>

theorem db_read_truncates_at_NUL:
  "\<forall>b. fst (snd (db_read (fst (snd (db_write client4 ''k'' [CHR ''a'', NUL, CHR ''b''] (world0\<lparr>beyond := b\<rparr>))))
                    ''k'' []
                    (snd (snd (db_write client4 ''k'' [CHR ''a'', NUL, CHR ''b''] (world0\<lparr>beyond := b\<rparr>))))))
       = [Some ''a'']"
proof
  fix b
  have k: "read_key ''k'' (world0\<lparr>beyond := b\<rparr>) = marshal ''k''"
    by (simp add: read_key_plain [OF plain_k] marshal_plain [OF plain_k])
  show "fst (snd (db_read (fst (snd (db_write client4 ''k'' [CHR ''a'', NUL, CHR ''b''] (world0\<lparr>beyond := b\<rparr>))))
                    ''k'' []
                    (snd (snd (db_write client4 ''k'' [CHR ''a'', NUL, CHR ''b''] (world0\<lparr>beyond := b\<rparr>))))))
       = [Some ''a'']"
    using write_then_read [OF handle_client4 serving_client4 k, of "[CHR ''a'', NUL, CHR ''b'']" "[]"]
    by (simp add: NUL_def)
qed

text \<open>
  C3, as amended. For every key, and so for every key that was never written, the read
  fails neither with \<open>KeyNotFound\<close> nor with another error of the taxonomy: the wrapper
  has no typed errors and inspects no status of the engine. This holds whatever the engine
  leaves behind the out pointer. What the read of a key that is not found does instead is
  not promised.
\<close>

theorem db_read_no_typed_error:
  "fst (db_read self key dataset w) \<noteq> Inl KeyNotFound \<and>
   fst (db_read self key dataset w) \<noteq> Inl Closed \<and>
   fst (db_read self key dataset w) \<noteq> Inl EmptyRing \<and>
   fst (db_read self key dataset w) \<noteq> Inl CorruptDocument \<and>
   fst (db_read self key dataset w) \<noteq> Inl NodeIOError \<and>
   fst (db_read self key dataset w) \<noteq> Inl InvalidTopology"
  using db_read_outcome [of self key dataset w] by (auto simp add: byref_None_def)

theorem db_read_no_typed_error_witness:
  "fst (db_read client4 ''k'' [] world0) \<noteq> Inl KeyNotFound \<and>
   fst (db_read client4 ''k'' [] world0) \<noteq> Inl Closed \<and>
   fst (db_read client4 ''k'' [] world0) \<noteq> Inl EmptyRing \<and>
   fst (db_read client4 ''k'' [] world0) \<noteq> Inl CorruptDocument \<and>
   fst (db_read client4 ''k'' [] world0) \<noteq> Inl NodeIOError \<and>
   fst (db_read client4 ''k'' [] world0) \<noteq> Inl InvalidTopology"
  by (rule db_read_no_typed_error [of client4 "''k''" "[]" world0])

text \<open>
  C3 as stated fails: on the fresh client of the singleton, with nothing written, the read
  of the key \<open>k\<close> does not give \<open>KeyNotFound\<close>, whatever the engine leaves behind the out
  pointer.
\<close>

theorem db_read_unwritten_key_not_KeyNotFound:
  "\<forall>m. fst (db_read client4 ''k'' [] (world0\<lparr>on_miss := m\<rparr>)) \<noteq> Inl KeyNotFound"
proof
  fix m
  show "fst (db_read client4 ''k'' [] (world0\<lparr>on_miss := m\<rparr>)) \<noteq> Inl KeyNotFound"
    using db_read_outcome [of client4 "''k''" "[]" "world0\<lparr>on_miss := m\<rparr>"]
    by (auto simp add: byref_None_def)
qed

text \<open>
  C5, as amended. Every write adds exactly one entry to \<open>dataset_key\<close>: the key, appended
  after the save of the document (under the bytes the engine reads for the key) and before
  the commit. The status of the save is not inspected, so this holds whether the save
  succeeded or failed.
\<close>

theorem db_write_appends_key:
  "handle self = Some h \<Longrightarrow>
   fst (db_write self key data w) = Inr () \<and>
   dataset_key (fst (snd (db_write self key data w))) = dataset_key self @ [key] \<and>
   trace (snd (snd (db_write self key data w))) =
     trace w @ [Save (marshal key) data, Append key, Commit]"
  by (simp add: db_write_trace) (simp add: db_write_eq)

theorem db_write_appends_key_witness:
  "fst (db_write client4 ''k'' ''v'' world0) = Inr () \<and>
   dataset_key (fst (snd (db_write client4 ''k'' ''v'' world0))) = [''k''] \<and>
   trace (snd (snd (db_write client4 ''k'' ''v'' world0))) = [Save ''k'' ''v'', Append ''k'', Commit]"
  using db_write_appends_key [OF handle_client4, of "''k''" "''v''" world0]
  by (simp add: client4_def world0_def marshal_plain [OF plain_k])

text \<open>
  C5 as stated fails: on the closed client the save of the document fails with \<open>Closed\<close>
  and stores nothing, and the write still appends the key.
\<close>

theorem db_write_failed_put_appends_key:
  "fst (couchstore_save_document_to_nodes (the (handle closed4))
         \<lparr>id_doc = \<lparr>buf = c_char_p ''k'', size_buf = length ''k''\<rparr>,
          data_doc = \<lparr>buf = c_char_p ''v'', size_buf = length ''v''\<rparr>\<rparr> world0) = Some Closed \<and>
   disk (snd (snd (db_write closed4 ''k'' ''v'' world0))) = [] \<and>
   dataset_key (fst (snd (db_write closed4 ''k'' ''v'' world0))) = [''k'']"
  by (simp add: db_write_eq [OF handle_closed4] handle_closed4
      couchstore_save_document_to_nodes_def engine_status_def serving_def is_open_def Let_def
      emit_def couchstore_commit_nodes_def world0_def)
     (simp add: closed4_def db_close_def client4_def couchstore_close_multiple_dbs_def)

text \<open>
  C7. The claim: the document is released once, after the payload was copied out, and no
  field of it, the size included, is read after the release. The code returns
  \<open>rq_doc.contents.data.size\<close> after \<open>couchstore_free_document(rq_doc)\<close>: in the read of a
  key written before, the release of the document at address 0 is followed by a load of
  its size.
\<close>

theorem db_read_size_after_free:
  "fst (db_read (fst (snd (db_write client4 ''k'' ''v'' world0))) ''k'' []
          (snd (snd (db_write client4 ''k'' ''v'' world0)))) = Inr 1 \<and>
   trace (snd (snd (db_read (fst (snd (db_write client4 ''k'' ''v'' world0))) ''k'' []
          (snd (snd (db_write client4 ''k'' ''v'' world0)))))) =
     [Save ''k'' ''v'', Append ''k'', Commit,
      Open ''k'', Load 0 DataBuf, Store 0 IdBuf, Free 0, Load 0 DataSize] \<and>
   use_after_free (trace (snd (snd (db_read (fst (snd (db_write client4 ''k'' ''v'' world0))) ''k'' []
          (snd (snd (db_write client4 ''k'' ''v'' world0)))))))"
proof -
  have w: "db_write client4 ''k'' ''v'' world0 =
      (Inr (), client4\<lparr>dataset_key := [''k'']\<rparr>,
       world0\<lparr>disk := [(''k'', ''v'')], trace := [Save ''k'' ''v'', Append ''k'', Commit]\<rparr>)"
    by (simp add: db_write_eq [OF handle_client4] couchstore_save_document_to_nodes_def
        serving_client4 engine_status_serving couchstore_commit_nodes_def emit_def Let_def
        world0_def dataset_key_client4 sized_def c_char_p_def encode_plain [OF plain_k])
  have r: "db_read (client4\<lparr>dataset_key := [''k'']\<rparr>) ''k'' []
        (world0\<lparr>disk := [(''k'', ''v'')], trace := [Save ''k'' ''v'', Append ''k'', Commit]\<rparr>) =
      (Inr 1, [Some ''v''],
       world0\<lparr>disk := [(''k'', ''v'')],
              heap := [(False, \<lparr>id_doc = \<lparr>buf = None, size_buf = 1\<rparr>,
                                data_doc = \<lparr>buf = Some ''v'', size_buf = 1\<rparr>\<rparr>)],
              trace := [Save ''k'' ''v'', Append ''k'', Commit,
                        Open ''k'', Load 0 DataBuf, Store 0 IdBuf, Free 0, Load 0 DataSize]\<rparr>)"
    by (simp add: db_read_def handle_client4 [unfolded client4_def] client4_def Let_def
        couchstore_open_document_from_nodes_def
        serving_client4 emit_def couchstore_free_document_def set_id_buf_def contents_def
        c_char_p_value_def c_char_p_def bytes_arg_def sized_def world0_def NUL_def
        encode_plain [OF plain_k])
  show ?thesis by (simp add: w r)
qed

subsection \<open>Initialisation and close\<close>

text \<open>
  C6, as amended. \<open>db_init\<close> validates nothing: for every node count from 0 up to the
  largest C \<open>int\<close> it returns normally and leaves a client with that many nodes and 32 ring
  positions for each of them, which for a node count of 0 is a client whose ring has no
  positions.
\<close>

theorem db_init_accepts_node_count:
  "0 \<le> n \<Longrightarrow> n < 2 ^ 31 \<Longrightarrow>
   fst (db_init self n w) = Inr () \<and>
   map_option node_num (handle (fst (snd (db_init self n w)))) = Some n \<and>
   map_option ring_positions (handle (fst (snd (db_init self n w)))) = Some (n * 32)"
  by (simp add: db_init_ok ring_positions_def)

theorem db_init_accepts_node_count_witness:
  "fst (db_init \<lparr>handle = None, dataset_key = []\<rparr> 0 world0) = Inr () \<and>
   map_option node_num (handle (fst (snd (db_init \<lparr>handle = None, dataset_key = []\<rparr> 0 world0)))) = Some 0 \<and>
   map_option ring_positions (handle (fst (snd (db_init \<lparr>handle = None, dataset_key = []\<rparr> 0 world0)))) = Some 0"
  using db_init_accepts_node_count [of 0 "\<lparr>handle = None, dataset_key = []\<rparr>" world0] by simp

text \<open>
  C6 as stated fails: \<open>db_init\<close> with a node count of 0 does not raise \<open>InvalidTopology\<close>
  and leaves a ring without positions.
\<close>

theorem db_init_zero_nodes_not_InvalidTopology:
  "fst (db_init \<lparr>handle = None, dataset_key = []\<rparr> 0 world0) \<noteq> Inl InvalidTopology \<and>
   map_option ring_positions (handle (fst (snd (db_init \<lparr>handle = None, dataset_key = []\<rparr> 0 world0)))) = Some 0"
  by (simp add: db_init_ok ring_positions_def)

text \<open>
  C9, as amended. After \<open>db_close\<close> no operation of the wrapper, a write, a read, a
  checkpoint or a second close, fails with \<open>Closed\<close>: the wrapper keeps no closed state
  and inspects no status of the engine. This holds for every client and whatever the
  engine reports on closed stores. What an operation does instead after the close is not
  promised. The wrapper has no commit operation of its own.
\<close>

theorem operations_after_close:
  "fst (db_write (fst (snd (db_close self w))) key data (snd (snd (db_close self w)))) \<noteq> Inl Closed \<and>
   fst (db_read (fst (snd (db_close self w))) key dataset (snd (snd (db_close self w)))) \<noteq> Inl Closed \<and>
   fst (db_checkpoint (fst (snd (db_close self w))) uri cdata (snd (snd (db_close self w)))) \<noteq> Inl Closed \<and>
   fst (db_close (fst (snd (db_close self w))) (snd (snd (db_close self w)))) \<noteq> Inl Closed"
  using db_write_outcome [of "fst (snd (db_close self w))" key data "snd (snd (db_close self w))"]
    db_read_outcome [of "fst (snd (db_close self w))" key dataset "snd (snd (db_close self w))"]
    db_checkpoint_outcome [of "fst (snd (db_close self w))" uri cdata "snd (snd (db_close self w))"]
    db_close_outcome [of "fst (snd (db_close self w))" "snd (snd (db_close self w))"]
  by (auto simp add: byref_None_def)

theorem operations_after_close_witness:
  "fst (db_write (fst (snd (db_close client4 world0))) ''k'' ''v'' (snd (snd (db_close client4 world0)))) \<noteq> Inl Closed \<and>
   fst (db_read (fst (snd (db_close client4 world0))) ''k'' [] (snd (snd (db_close client4 world0)))) \<noteq> Inl Closed \<and>
   fst (db_checkpoint (fst (snd (db_close client4 world0))) ''u'' ''x'' (snd (snd (db_close client4 world0)))) \<noteq> Inl Closed \<and>
   fst (db_close (fst (snd (db_close client4 world0))) (snd (snd (db_close client4 world0)))) \<noteq> Inl Closed"
  by (rule operations_after_close [of client4 world0 "''k''" "''v''" "[]" "''u''" "''x''"])

text \<open>
  C9 as stated fails: after the close of the client of the singleton, a write does not
  fail with \<open>Closed\<close>, whatever the engine reports on closed stores.
\<close>

theorem db_write_after_close_not_Closed:
  "\<forall>r. fst (db_write (fst (snd (db_close client4 (world0\<lparr>on_released := r\<rparr>)))) ''k'' ''v''
                (snd (snd (db_close client4 (world0\<lparr>on_released := r\<rparr>))))) \<noteq> Inl Closed"
  by (simp add: db_close_eq [OF handle_client4] db_write_eq)

end
